theory Spec2Isabelle
  imports Main "HOL-Library.AList"
begin

section \<open>The keyed lock manager of async-lock.ts\<close>

text \<open>
  The source is one class, \<^verbatim>\<open>AsyncLock\<close>, whose methods close over mutable variables.
  Every call of \<^verbatim>\<open>acquire\<close> on a single key creates one closure environment
  (\<^verbatim>\<open>key\<close>, \<^verbatim>\<open>fn\<close>, \<^verbatim>\<open>cb\<close>, \<^verbatim>\<open>deferred\<close>, \<^verbatim>\<open>opts\<close>, \<^verbatim>\<open>resolved\<close>, \<^verbatim>\<open>timer\<close>, and the
  \<^verbatim>\<open>called\<close> flag of \<^verbatim>\<open>exec\<close>); the model keeps these environments in a table indexed by
  the order of creation, and a function stored in a wait queue is the index of the
  environment whose \<^verbatim>\<open>exec(true)\<close> it calls.

  Code outside the class is given as data. A task body of the caller is one of four
  kinds: it returns and reports in a later event, it reports before it returns, it
  throws, or it takes no callback and returns a promise. A callback of the caller either
  only receives the outcome, or receives it and then calls back into the lock before it
  returns. The functions that \<^verbatim>\<open>_acquireBatch\<close> builds with \<^verbatim>\<open>getFn\<close> are part of the class and
  are executed synchronously and in the source's order, as every call is.
\<close>

type_synonym key = string
type_synonym aid = nat

datatype err = TooManyPending | TimedOut | TaskFailed nat

datatype exn = MustPassFunction | TypeError | TaskThrew nat

record AsyncLockOptions =
  opt_timeout :: "nat option"
  opt_maxPending :: "nat option"

text \<open>
  A task value. \<open>UserTask\<close>, \<open>SyncTask\<close> and \<open>ThrowTask\<close> are functions of the caller
  that take the completion callback (\<^verbatim>\<open>fn.length === 1\<close>): the first returns and reports
  later, the second calls the callback with the given outcome before it returns, the third
  throws. \<open>PromiseTask\<close> is a function of the caller without parameters. \<open>NotCallable\<close> is
  a value that is not a function. \<open>GetFn\<close> is the closure \<^verbatim>\<open>getFn(key, fn)\<close>, which
  captures the \<^verbatim>\<open>opts\<close> of the batch call (\<open>None\<close> is \<^verbatim>\<open>undefined\<close>).
\<close>

datatype fn =
    UserTask nat
  | NotCallable
  | GetFn key fn "AsyncLockOptions option"
  | SyncTask nat "err option" "nat option"
  | ThrowTask nat
  | PromiseTask nat

text \<open>\<^verbatim>\<open>fn.length\<close>, which \<^verbatim>\<open>exec\<close> compares with 1 (line 92).\<close>

fun fn_length :: "fn \<Rightarrow> nat" where
  "fn_length (UserTask t) = 1"
| "fn_length (SyncTask t e r) = 1"
| "fn_length (ThrowTask t) = 1"
| "fn_length (GetFn k g opts) = 1"
| "fn_length (PromiseTask t) = 0"
| "fn_length NotCallable = 0"

text \<open>
  A callback value: a function of the caller that only receives the outcome (\<open>UserCb\<close>),
  the function \<^verbatim>\<open>exec\<close> hands to a task body in callback mode (\<open>ExecCb\<close>, it belongs to one
  acquisition and carries that call's \<^verbatim>\<open>locked\<close>), the function \<^verbatim>\<open>_acquireBatch\<close> builds
  around its own deferred (\<open>BatchCb\<close>), or a function of the caller that receives the
  outcome and then runs the given calls one after the other (\<open>ScriptCb\<close>): it calls the
  completion callback a started task was given, or \<^verbatim>\<open>acquire\<close> on a single key with a
  callback.
\<close>

datatype cbk =
    UserCb nat
  | ExecCb aid bool
  | BatchCb nat
  | ScriptCb nat "cmd list"
and cmd =
    Finish aid "err option" "nat option"
  | Acquire key fn cbk "AsyncLockOptions option"

text \<open>The third argument of \<^verbatim>\<open>acquire\<close>: a function, an options object, or nothing.\<close>

datatype cbarg = CbFun cbk | CbOpts AsyncLockOptions | CbUndefined

record acq =
  a_key :: key
  a_fn :: fn
  a_cb :: "cbk option"
  a_deferred :: "nat option"
  a_opts :: AsyncLockOptions
  resolved :: bool
  timer :: bool
  called :: bool

text \<open>
  The trace records what the lock does to its environment and to its table, in order:
  \<open>Started\<close> when \<^verbatim>\<open>exec\<close> takes the branch that runs the task of an acquisition,
  \<open>Invoked\<close> when a task body of the caller is entered with a callback, \<open>Deliver\<close> when
  \<^verbatim>\<open>done\<close> reports an outcome on the acquisition's channel, \<open>CbCalled\<close> and \<open>BatchSettled\<close>
  when a function of the caller or the deferred of a batch receives it, \<open>Deleted\<close> and
  \<open>Shifted\<close> when \<^verbatim>\<open>done\<close> removes a key or takes the next function from its queue.
\<close>

datatype event =
    Started aid
  | Invoked nat cbk
  | Deliver aid "err option" "nat option"
  | CbCalled nat "err option" "nat option"
  | BatchSettled nat "err option" "nat option"
  | Deleted key
  | Shifted key aid

record lock =
  queue :: "(key \<times> aid list) list"
  timeout :: nat
  maxPending :: nat
  acqs :: "acq list"
  deferreds :: nat
  trace :: "event list"

datatype res = OutOfFuel | Threw exn lock | Ok lock

definition DEFAULT_TIMEOUT :: nat where
  "DEFAULT_TIMEOUT = 0"

definition DEFAULT_MAX_PENDING :: nat where
  "DEFAULT_MAX_PENDING = 1000"

text \<open>\<^verbatim>\<open>x || d\<close> on an optional number: \<^verbatim>\<open>undefined\<close> and \<^verbatim>\<open>0\<close> are falsy.\<close>

definition or_else :: "nat option \<Rightarrow> nat \<Rightarrow> nat" where
  "or_else x d = (case x of None \<Rightarrow> d | Some v \<Rightarrow> if v = 0 then d else v)"

definition no_opts :: AsyncLockOptions where
  "no_opts = \<lparr>opt_timeout = None, opt_maxPending = None\<rparr>"

definition new_lock :: "AsyncLockOptions \<Rightarrow> lock" where
  "new_lock opts =
     \<lparr>queue = [],
      timeout = or_else (opt_timeout opts) DEFAULT_TIMEOUT,
      maxPending = or_else (opt_maxPending opts) DEFAULT_MAX_PENDING,
      acqs = [], deferreds = 0, trace = []\<rparr>"

definition emit :: "event \<Rightarrow> lock \<Rightarrow> lock" where
  "emit e l = l\<lparr>trace := trace l @ [e]\<rparr>"

definition set_resolved :: "aid \<Rightarrow> lock \<Rightarrow> lock" where
  "set_resolved i l = l\<lparr>acqs := (acqs l)[i := (acqs l ! i)\<lparr>resolved := True\<rparr>]\<rparr>"

definition set_timer :: "aid \<Rightarrow> bool \<Rightarrow> lock \<Rightarrow> lock" where
  "set_timer i b l = l\<lparr>acqs := (acqs l)[i := (acqs l ! i)\<lparr>timer := b\<rparr>]\<rparr>"

definition set_called :: "aid \<Rightarrow> bool \<Rightarrow> lock \<Rightarrow> lock" where
  "set_called i b l = l\<lparr>acqs := (acqs l)[i := (acqs l ! i)\<lparr>called := b\<rparr>]\<rparr>"

subsection \<open>The table of queues\<close>

text \<open>
  \<^verbatim>\<open>_queue\<close> is an object literal, so \<^verbatim>\<open>this._queue[key]\<close> finds the queue the lock stored
  under the key, and otherwise, for the name of a member of \<^verbatim>\<open>Object.prototype\<close>, that
  member. \<open>proto_member\<close> gives the \<^verbatim>\<open>length\<close> of the member: the number of parameters
  of a function, nothing for \<^verbatim>\<open>__proto__\<close>, whose value is an object without a length.
  The lock stores a queue only under a key for which the lookup found nothing, and
  \<^verbatim>\<open>done\<close> runs with \<^verbatim>\<open>locked\<close> only for such a key, so it reads stored queues only.
\<close>

definition proto_member :: "key \<Rightarrow> nat option option" where
  "proto_member k =
     (if k = ''constructor'' then Some (Some 1)
      else if k = ''hasOwnProperty'' then Some (Some 1)
      else if k = ''isPrototypeOf'' then Some (Some 1)
      else if k = ''propertyIsEnumerable'' then Some (Some 1)
      else if k = ''toString'' then Some (Some 0)
      else if k = ''toLocaleString'' then Some (Some 0)
      else if k = ''valueOf'' then Some (Some 0)
      else if k = ''__defineGetter__'' then Some (Some 2)
      else if k = ''__defineSetter__'' then Some (Some 2)
      else if k = ''__lookupGetter__'' then Some (Some 1)
      else if k = ''__lookupSetter__'' then Some (Some 1)
      else if k = ''__proto__'' then Some None
      else None)"

datatype slot = Absent | Inherited "nat option" | Own "aid list"

definition slot_of :: "lock \<Rightarrow> key \<Rightarrow> slot" where
  "slot_of l k =
     (case map_of (queue l) k of
        Some q \<Rightarrow> Own q
      | None \<Rightarrow> (case proto_member k of Some len \<Rightarrow> Inherited len | None \<Rightarrow> Absent))"

subsection \<open>\<^verbatim>\<open>acquire\<close> on one key\<close>

text \<open>
  Lines 38 to 47 of \<^verbatim>\<open>acquire\<close>: when the third argument is not a function it becomes the
  options, whatever the fourth argument was, and a deferred is created.
\<close>

definition shuffle :: "cbarg \<Rightarrow> AsyncLockOptions option \<Rightarrow> cbk option \<times> AsyncLockOptions option" where
  "shuffle cb opts =
     (case cb of CbFun c \<Rightarrow> (Some c, opts)
               | CbOpts ob \<Rightarrow> (None, Some ob)
               | CbUndefined \<Rightarrow> (None, None))"

definition new_acq :: "key \<Rightarrow> fn \<Rightarrow> cbarg \<Rightarrow> AsyncLockOptions option \<Rightarrow> nat \<Rightarrow> acq" where
  "new_acq k f cb opts d =
     (let (c, opts') = shuffle cb opts in
      \<lparr>a_key = k, a_fn = f, a_cb = c,
       a_deferred = (if c = None then Some d else None),
       a_opts = (case opts' of None \<Rightarrow> no_opts | Some ob \<Rightarrow> ob),
       resolved = False, timer = False, called = False\<rparr>)"

text \<open>
  The single-key part of \<^verbatim>\<open>acquire\<close> (\<open>acquire_key\<close>, lines 34 to 132) with its local
  functions \<^verbatim>\<open>done\<close> (\<open>done_acq\<close>) and \<^verbatim>\<open>exec\<close>, the call of a callback value (\<open>call_cb\<close>,
  with \<open>run_cmds\<close> for the calls a callback of the caller makes) and the call of a task
  value with a callback (\<open>call_fn\<close>). The first argument bounds the depth of nested calls.

  In \<^verbatim>\<open>acquire\<close>, a key that names a member of \<^verbatim>\<open>Object.prototype\<close> takes the busy branch:
  the request is rejected when the member's length reaches \<^verbatim>\<open>maxPending\<close>, and otherwise
  \<^verbatim>\<open>push\<close> is not a function. In \<^verbatim>\<open>exec\<close>, a task with one parameter is called with the
  callback of lines 94 to 99; any other task is handed to \<^verbatim>\<open>Q.try\<close>, which calls it on a
  later tick, so nothing more happens in this call. In \<^verbatim>\<open>done\<close>, the callback is called
  before \<^verbatim>\<open>resolved\<close> is set (lines 60 and 70), and the queue is read again after it
  (line 75). An exception leaves every function on its way up at once.
\<close>

function acquire_key :: "nat \<Rightarrow> lock \<Rightarrow> key \<Rightarrow> fn \<Rightarrow> cbarg \<Rightarrow> AsyncLockOptions option \<Rightarrow> res"
and exec :: "nat \<Rightarrow> lock \<Rightarrow> aid \<Rightarrow> bool \<Rightarrow> res"
and done_acq :: "nat \<Rightarrow> lock \<Rightarrow> aid \<Rightarrow> bool \<Rightarrow> err option \<Rightarrow> nat option \<Rightarrow> res"
and call_cb :: "nat \<Rightarrow> lock \<Rightarrow> cbk \<Rightarrow> err option \<Rightarrow> nat option \<Rightarrow> res"
and run_cmds :: "nat \<Rightarrow> lock \<Rightarrow> cmd list \<Rightarrow> res"
and call_fn :: "nat \<Rightarrow> lock \<Rightarrow> fn \<Rightarrow> cbk \<Rightarrow> res"
where
  "acquire_key 0 l k f cb opts = OutOfFuel"
| "acquire_key (Suc n) l k f cb opts =
     (if f = NotCallable then Threw MustPassFunction l
      else
        let i = length (acqs l);
            a = new_acq k f cb opts (deferreds l);
            l1 = l\<lparr>acqs := acqs l @ [a],
                   deferreds := (if a_deferred a = None then deferreds l else Suc (deferreds l))\<rparr>
        in case slot_of l1 k of
             Absent \<Rightarrow> exec n (l1\<lparr>queue := AList.update k [] (queue l1)\<rparr>) i True
           | Inherited len \<Rightarrow>
               if (case len of Some m \<Rightarrow> m \<ge> maxPending l1 | None \<Rightarrow> False)
               then done_acq n l1 i False (Some TooManyPending) None
               else Threw TypeError l1
           | Own q \<Rightarrow>
               if length q \<ge> maxPending l1 then done_acq n l1 i False (Some TooManyPending) None
               else
                 let l2 = l1\<lparr>queue := AList.update k (q @ [i]) (queue l1)\<rparr>
                 in if or_else (opt_timeout (a_opts a)) (timeout l2) \<noteq> 0
                    then Ok (set_timer i True l2) else Ok l2)"
| "exec 0 l i locked = OutOfFuel"
| "exec (Suc n) l i locked =
     (if resolved (acqs l ! i) then done_acq n l i locked None None
      else
        let l1 = (if timer (acqs l ! i) then set_timer i False l else l)
        in if fn_length (a_fn (acqs l ! i)) = 1
           then call_fn n (emit (Started i) (set_called i False l1)) (a_fn (acqs l ! i)) (ExecCb i locked)
           else Ok (emit (Started i) l1))"
| "done_acq 0 l i locked e r = OutOfFuel"
| "done_acq (Suc n) l i locked e r =
     (let k = a_key (acqs l ! i) in
      if locked \<and> map_of (queue l) k = None then Threw TypeError l
      else
        let l1 = (if locked \<and> map_of (queue l) k = Some []
                  then emit (Deleted k) (l\<lparr>queue := AList.delete k (queue l)\<rparr>) else l);
            r2 = (if resolved (acqs l1 ! i) then Ok l1
                  else
                    let l1' = emit (Deliver i e r) l1;
                        rc = (case a_deferred (acqs l1 ! i) of
                                Some d \<Rightarrow> Ok l1'
                              | None \<Rightarrow> (case a_cb (acqs l1 ! i) of
                                           Some c \<Rightarrow> call_cb n l1' c e r
                                         | None \<Rightarrow> Ok l1'))
                    in case rc of Ok l' \<Rightarrow> Ok (set_resolved i l') | other \<Rightarrow> other)
        in case r2 of
             Ok l2 \<Rightarrow>
               if locked then
                 (case map_of (queue l2) k of
                    None \<Rightarrow> Ok l2
                  | Some [] \<Rightarrow> Threw TypeError l2
                  | Some (w # ws) \<Rightarrow>
                      exec n (emit (Shifted k w) (l2\<lparr>queue := AList.update k ws (queue l2)\<rparr>)) w True)
               else Ok l2
           | other \<Rightarrow> other)"
| "call_cb 0 l c e r = OutOfFuel"
| "call_cb (Suc n) l c e r =
     (case c of
        UserCb u \<Rightarrow> Ok (emit (CbCalled u e r) l)
      | BatchCb d \<Rightarrow> Ok (emit (BatchSettled d e r) l)
      | ExecCb i locked \<Rightarrow>
          if called (acqs l ! i) then Ok l
          else done_acq n (set_called i True l) i locked e r
      | ScriptCb u cs \<Rightarrow> run_cmds n (emit (CbCalled u e r) l) cs)"
| "run_cmds 0 l cs = OutOfFuel"
| "run_cmds (Suc n) l [] = Ok l"
| "run_cmds (Suc n) l (c # cs) =
     (case (case c of
              Finish i e r \<Rightarrow> call_cb n l (ExecCb i True) e r
            | Acquire k f cb opts \<Rightarrow> acquire_key n l k f (CbFun cb) opts)
      of Ok l' \<Rightarrow> run_cmds n l' cs | other \<Rightarrow> other)"
| "call_fn 0 l f c = OutOfFuel"
| "call_fn (Suc n) l f c =
     (case f of
        UserTask t \<Rightarrow> Ok (emit (Invoked t c) l)
      | SyncTask t e r \<Rightarrow> call_cb n (emit (Invoked t c) l) c e r
      | ThrowTask t \<Rightarrow> Threw (TaskThrew t) (emit (Invoked t c) l)
      | PromiseTask t \<Rightarrow> Ok (emit (Invoked t c) l)
      | NotCallable \<Rightarrow> Threw TypeError l
      | GetFn k g opts \<Rightarrow> acquire_key n l k g (CbFun c) opts)"
  by pat_completeness auto
termination
  by (relation "measure (\<lambda>x. case x of
        Inl (Inl (n, _)) \<Rightarrow> n | Inl (Inr (Inl (n, _))) \<Rightarrow> n | Inl (Inr (Inr (n, _))) \<Rightarrow> n
      | Inr (Inl (n, _)) \<Rightarrow> n | Inr (Inr (Inl (n, _))) \<Rightarrow> n | Inr (Inr (Inr (n, _))) \<Rightarrow> n)") auto

subsection \<open>Batches, the entry point and \<^verbatim>\<open>isBusy\<close>\<close>

text \<open>
  \<^verbatim>\<open>_acquireBatch\<close> (lines 144 to 174). \<^verbatim>\<open>keys.reverse()\<close> reverses the array of the caller
  in place, so the function returns the array as the caller sees it afterwards, next to
  the result of calling the chain. In promise mode the deferred is created before the
  chain is called.
\<close>

definition acquireBatch ::
  "nat \<Rightarrow> lock \<Rightarrow> key list \<Rightarrow> fn \<Rightarrow> cbarg \<Rightarrow> AsyncLockOptions option \<Rightarrow> res \<times> key list" where
  "acquireBatch n l keys f cb opts =
     (let (c, opts') = shuffle cb opts;
          keys' = rev keys;
          fnx = foldl (\<lambda>g k. GetFn k g opts') f keys'
      in case c of
           Some u \<Rightarrow> (call_fn n l fnx u, keys')
         | None \<Rightarrow> (call_fn n (l\<lparr>deferreds := Suc (deferreds l)\<rparr>) fnx (BatchCb (deferreds l)), keys'))"

text \<open>
  \<^verbatim>\<open>acquire\<close> as the caller sees it (lines 29 to 36): an array of keys goes to
  \<^verbatim>\<open>_acquireBatch\<close>, a string to the single-key part. The second component is the first
  argument after the call.
\<close>

datatype keyarg = Single key | Many "key list"

definition acquire ::
  "nat \<Rightarrow> lock \<Rightarrow> keyarg \<Rightarrow> fn \<Rightarrow> cbarg \<Rightarrow> AsyncLockOptions option \<Rightarrow> res \<times> keyarg" where
  "acquire n l key f cb opts =
     (case key of
        Many ks \<Rightarrow> (let (r, ks') = acquireBatch n l ks f cb opts in (r, Many ks'))
      | Single k \<Rightarrow> (acquire_key n l k f cb opts, Single k))"

text \<open>
  \<^verbatim>\<open>isBusy\<close> (lines 181 to 187). \<^verbatim>\<open>!key\<close> holds for a missing argument and for the empty
  string; \<^verbatim>\<open>Object.keys\<close> lists the stored keys only; \<^verbatim>\<open>this._queue[key]\<close> is the lookup
  \<open>slot_of\<close>. The function returns a truth value and nothing else.
\<close>

definition isBusy :: "lock \<Rightarrow> key option \<Rightarrow> bool" where
  "isBusy l key =
     (case key of
        None \<Rightarrow> queue l \<noteq> []
      | Some k \<Rightarrow> if k = [] then queue l \<noteq> [] else slot_of l k \<noteq> Absent)"

subsection \<open>Events of the environment\<close>

text \<open>
  The task body of acquisition \<open>i\<close> reports \<open>(e, r)\<close> after it has returned: it calls the
  function \<^verbatim>\<open>exec\<close> gave it (lines 94 to 99), or its promise settles and \<^verbatim>\<open>nodeify\<close> calls
  \<^verbatim>\<open>done\<close> (lines 105 to 107); a promise settles once, which the \<open>called\<close> flag stands
  for in that mode too. The timer of acquisition \<open>i\<close> fires (lines 123 to 126); a timer
  that was cleared or never set does not fire.
\<close>

definition complete :: "nat \<Rightarrow> lock \<Rightarrow> aid \<Rightarrow> err option \<Rightarrow> nat option \<Rightarrow> res" where
  "complete n l i e r = call_cb n l (ExecCb i True) e r"

definition timer_fires :: "nat \<Rightarrow> lock \<Rightarrow> aid \<Rightarrow> res" where
  "timer_fires n l i =
     (if timer (acqs l ! i)
      then done_acq n (set_timer i False l) i False (Some TimedOut) None
      else Ok l)"

text \<open>
  An acquisition is executing from the moment \<^verbatim>\<open>exec\<close> runs its task until the task
  reports; \<open>holders l k\<close> lists the acquisitions on key \<open>k\<close> that are executing in \<open>l\<close>.
\<close>

definition running :: "lock \<Rightarrow> aid \<Rightarrow> bool" where
  "running l i \<longleftrightarrow> Started i \<in> set (trace l) \<and> \<not> called (acqs l ! i)"

definition holders :: "lock \<Rightarrow> key \<Rightarrow> aid list" where
  "holders l k = filter (\<lambda>i. a_key (acqs l ! i) = k \<and> running l i) [0..<length (acqs l)]"

fun state_of :: "res \<Rightarrow> lock option" where
  "state_of OutOfFuel = None"
| "state_of (Threw x l) = Some l"
| "state_of (Ok l) = Some l"

subsection \<open>Runs\<close>

text \<open>Calls one after the other, as long as none throws.\<close>

fun then_res :: "res \<Rightarrow> (lock \<Rightarrow> res) \<Rightarrow> res" where
  "then_res (Ok l) f = f l"
| "then_res r f = r"

text \<open>
  Three batch calls on a new lock, with keys in one consistent order, then the task of the
  first batch (the body of acquisition 2) reports a value.
\<close>

definition overlap_run :: res where
  "overlap_run =
     then_res (fst (acquire 12 (new_lock no_opts) (Many [''O1'', ''O2'', ''K''])
                      (UserTask 1) (CbFun (UserCb 1)) None)) (\<lambda>l1.
     then_res (fst (acquire 12 l1 (Many [''O1'', ''K'']) (UserTask 2) (CbFun (UserCb 2)) None)) (\<lambda>l2.
     then_res (fst (acquire 12 l2 (Many [''O2'', ''K'']) (UserTask 3) (CbFun (UserCb 3)) None)) (\<lambda>l3.
     complete 20 l3 2 None (Some 7))))"

text \<open>
  A batch that names the key K twice, with a timeout of 10: the outer acquisition 0 holds
  K, the inner acquisition 1 waits in the queue of K with its timer armed. Then the timer
  fires.
\<close>

definition twice_run :: res where
  "twice_run =
     then_res (fst (acquire 12 (new_lock no_opts) (Many [''K'', ''K'']) (UserTask 1)
                      (CbFun (UserCb 1)) (Some \<lparr>opt_timeout = Some 10, opt_maxPending = None\<rparr>))) (\<lambda>l1.
     timer_fires 12 l1 1)"

text \<open>
  The same with a key A in front: acquisitions 0 on A and 1 on K are held, acquisition 2
  waits on K, and its timer fires.
\<close>

definition nested_twice_run :: res where
  "nested_twice_run =
     then_res (fst (acquire 12 (new_lock no_opts) (Many [''A'', ''K'', ''K'']) (UserTask 1)
                      (CbFun (UserCb 1)) (Some \<lparr>opt_timeout = Some 10, opt_maxPending = None\<rparr>))) (\<lambda>l1.
     timer_fires 12 l1 2)"

text \<open>
  Single-key calls with callbacks. Task 1 holds the key a. Task 2, which reports the value
  1 as soon as it is called, waits with a timeout of 10; its callback, when it receives an
  outcome, tells task 1 to finish, that is it calls the completion callback task 1 was
  given, with the value 7. Then the timer of the waiting request fires.
\<close>

definition reentrant_run :: res where
  "reentrant_run =
     then_res (fst (acquire 3 (new_lock no_opts) (Single ''a'') (UserTask 1) (CbFun (UserCb 1)) None)) (\<lambda>l1.
     then_res (fst (acquire 3 l1 (Single ''a'') (SyncTask 2 None (Some 1))
                      (CbFun (ScriptCb 2 [Finish 0 None (Some 7)]))
                      (Some \<lparr>opt_timeout = Some 10, opt_maxPending = None\<rparr>))) (\<lambda>l2.
     timer_fires 12 l2 1))"

subsection \<open>Callers and their channels\<close>

text \<open>
  A caller that only waits for the outcome passes as third argument a function that does
  not call back into the lock, an options object or nothing. \<open>sink_events\<close> is what such
  a function adds to the trace when an outcome is delivered to it.
\<close>

definition caller_arg :: "cbarg \<Rightarrow> bool" where
  "caller_arg cb =
     (case cb of CbFun (ExecCb i b) \<Rightarrow> False | CbFun (ScriptCb u cs) \<Rightarrow> False | _ \<Rightarrow> True)"

definition sink_events :: "cbarg \<Rightarrow> err option \<Rightarrow> nat option \<Rightarrow> event list" where
  "sink_events cb e r =
     (case cb of CbFun (UserCb u) \<Rightarrow> [CbCalled u e r]
               | CbFun (BatchCb d) \<Rightarrow> [BatchSettled d e r]
               | _ \<Rightarrow> [])"

text \<open>A lock with \<^verbatim>\<open>maxPending = 1\<close>, key a held by task 1 and task 2 waiting.\<close>

definition full_a :: lock where
  "full_a = the (state_of
     (then_res (acquire_key 3 (new_lock \<lparr>opt_timeout = None, opt_maxPending = Some 1\<rparr>) ''a''
                  (UserTask 1) (CbFun (UserCb 1)) None) (\<lambda>l.
      acquire_key 3 l ''a'' (UserTask 2) (CbFun (UserCb 2)) None)))"

text \<open>The outcomes the callback \<open>u\<close> of a caller has received, in order.\<close>

definition calls_of :: "nat \<Rightarrow> event list \<Rightarrow> event list" where
  "calls_of u evs = filter (\<lambda>ev. case ev of CbCalled v e r \<Rightarrow> v = u | _ \<Rightarrow> False) evs"

subsection \<open>Single-key use by callers that only wait\<close>

text \<open>
  The channel of an acquisition belongs to a caller that only waits when it has a
  deferred of its own, or its callback is a function of the caller that does not call
  back into the lock, or it has neither; \<open>acq_sink_events\<close> is what delivering to that
  channel adds to the trace after the \<open>Deliver\<close> event (settling the deferred of the
  acquisition adds nothing). \<open>released\<close> is the lock after the first statement of
  \<^verbatim>\<open>done\<close> (lines 53 to 55), \<open>delivered\<close> the lock after \<^verbatim>\<open>done\<close> has reported on such a
  channel (lines 57 to 71).
\<close>

definition caller_sink :: "acq \<Rightarrow> bool" where
  "caller_sink a =
     (case a_deferred a of
        Some d \<Rightarrow> True
      | None \<Rightarrow> (case a_cb a of Some (ExecCb i b) \<Rightarrow> False
                             | Some (ScriptCb u cs) \<Rightarrow> False
                             | _ \<Rightarrow> True))"

definition acq_sink_events :: "acq \<Rightarrow> err option \<Rightarrow> nat option \<Rightarrow> event list" where
  "acq_sink_events a e r =
     (case a_deferred a of
        Some d \<Rightarrow> []
      | None \<Rightarrow> (case a_cb a of Some (UserCb u) \<Rightarrow> [CbCalled u e r]
                             | Some (BatchCb d) \<Rightarrow> [BatchSettled d e r]
                             | _ \<Rightarrow> []))"

definition released :: "bool \<Rightarrow> key \<Rightarrow> lock \<Rightarrow> lock" where
  "released locked k l =
     (if locked \<and> map_of (queue l) k = Some []
      then emit (Deleted k) (l\<lparr>queue := AList.delete k (queue l)\<rparr>) else l)"

definition delivered :: "aid \<Rightarrow> err option \<Rightarrow> nat option \<Rightarrow> lock \<Rightarrow> lock" where
  "delivered i e r l =
     (if resolved (acqs l ! i) then l
      else set_resolved i (l\<lparr>trace := trace l @ Deliver i e r # acq_sink_events (acqs l ! i) e r\<rparr>))"



text \<open>
  In such a lock every acquisition has a task body that reports later and a channel of a
  caller that only waits (\<open>plain\<close>). \<open>table_ok\<close> says that a key has a queue in the table
  exactly when one acquisition on it is executing, and that the functions in the queue
  belong to distinct acquisitions on that key that were not started; \<open>handing k\<close> is the
  same while the holder of \<open>k\<close> has reported and \<^verbatim>\<open>done\<close> has not yet started the next
  one.
\<close>

definition plain_acq :: "acq \<Rightarrow> bool" where
  "plain_acq a \<longleftrightarrow> caller_sink a \<and> (case a_fn a of UserTask t \<Rightarrow> True | _ \<Rightarrow> False)"

definition plain :: "lock \<Rightarrow> bool" where
  "plain l \<longleftrightarrow> (\<forall>j<length (acqs l). plain_acq (acqs l ! j))
             \<and> (\<forall>i. Started i \<in> set (trace l) \<longrightarrow> i < length (acqs l))"







definition after_overlap :: res where
  "after_overlap = then_res overlap_run (\<lambda>l. complete 20 l 5 None (Some 8))"

section \<open>Properties\<close>

text \<open>
  C1 (mutual exclusion per key). The claim fails on the run \<open>overlap_run\<close>: when the task of
  the batch on O1, O2, K reports, \<^verbatim>\<open>done\<close> of its acquisition on K removes K, then calls
  its callback, which releases O2 and O1; the waiter on O1 takes the free key K and
  starts task 2, the waiter on O2 queues on K, and back in the first \<^verbatim>\<open>done\<close> the queue of
  K exists again, so its head is started: the bodies of acquisitions 5 and 6, both on K,
  execute at the same time.
\<close>

theorem mutual_exclusion_overlap:
  "map_option (\<lambda>l. (holders l ''K'', map (\<lambda>i. a_fn (acqs l ! i)) (holders l ''K'')))
     (state_of overlap_run) = Some ([5, 6], [UserTask 2, UserTask 3])"
  unfolding overlap_run_def by code_simp

text \<open>
  C2 (service in arrival order, timed-out waiters skipped in place). The claim fails on
  the run \<open>twice_run\<close>: the timer of the waiting acquisition 1 fires, its \<^verbatim>\<open>done\<close> reports
  the time-out through its callback, which is the completion of the holder; the holder's
  \<^verbatim>\<open>done\<close> passes the time-out to the caller and takes the waiter from the queue while the
  waiter's \<^verbatim>\<open>resolved\<close> is still unset, so \<^verbatim>\<open>exec\<close> does not skip it: the task body of the
  waiter whose time-out was delivered is entered.
\<close>

theorem timed_out_waiter_started:
  "map_option trace (state_of twice_run) =
     Some [Started 0,
           Deliver 1 (Some TimedOut) None, Deliver 0 (Some TimedOut) None,
           CbCalled 1 (Some TimedOut) None,
           Shifted ''K'' 1, Started 1, Invoked 1 (ExecCb 1 True)]"
  unfolding twice_run_def by code_simp

text \<open>
  C3 (one outcome per acquisition). The claim fails on the run \<open>reentrant_run\<close>: the timer
  of the waiting acquisition 1 fires and \<^verbatim>\<open>done\<close> calls its callback with the time-out
  before it sets \<^verbatim>\<open>resolved\<close>; the callback lets the holder finish, whose \<^verbatim>\<open>done\<close> starts
  the waiter, not yet marked; its task reports at once, and the waiter's \<^verbatim>\<open>done\<close>, still
  seeing \<^verbatim>\<open>resolved\<close> unset, calls the same callback a second time, with the value.
\<close>

theorem callback_called_twice:
  "map_option (\<lambda>l. (calls_of 2 (trace l), resolved (acqs l ! 1))) (state_of reentrant_run) =
     Some ([CbCalled 2 (Some TimedOut) None, CbCalled 2 None (Some 1)], True)"
  unfolding reentrant_run_def by code_simp

text \<open>
  C4 (time-out of a queued request). The claim fails on the run \<open>twice_run\<close>: after the
  timer of the queued acquisition 1 has fired and the caller has received the time-out,
  the request is not left in the queue to be skipped: the queue of K is empty and
  acquisition 1 is executing, its outcome marked as delivered.
\<close>

theorem timed_out_waiter_not_left:
  "map_option (\<lambda>l. (calls_of 1 (trace l), map_of (queue l) ''K'', holders l ''K'',
                     resolved (acqs l ! 1)))
     (state_of twice_run) =
     Some ([CbCalled 1 (Some TimedOut) None], Some [], [1], True)"
  unfolding twice_run_def by code_simp

text \<open>
  C5 (admission limit): a call of a caller on a key whose queue has reached \<^verbatim>\<open>maxPending\<close>
  returns at once; the caller's channel receives the error \<open>TooManyPending\<close>, the table of
  queues is the same as before, so the request is not queued and no key is removed, and
  nothing is started: the trace grows by the delivery only.
\<close>

theorem admission_limit:
  assumes "map_of (queue l) k = Some q" and "maxPending l \<le> length q"
    and "f \<noteq> NotCallable" and "caller_arg cb"
  shows "\<exists>l' a. acquire_key (Suc (Suc (Suc n))) l k f cb opts = Ok l'
           \<and> queue l' = queue l
           \<and> acqs l' = acqs l @ [a]
           \<and> trace l' = trace l @ Deliver (length (acqs l)) (Some TooManyPending) None
                                  # sink_events cb (Some TooManyPending) None"
  using assms
  by (cases cb)
     (auto simp add: Let_def new_acq_def shuffle_def emit_def set_resolved_def caller_arg_def
        sink_events_def slot_of_def split: cbk.splits)

theorem admission_limit_witness:
  "map_of (queue full_a) ''a'' = Some [1] \<and> maxPending full_a \<le> length [1::nat]
   \<and> UserTask 3 \<noteq> NotCallable \<and> caller_arg (CbFun (UserCb 3))
   \<and> (\<exists>l' a. acquire_key 3 full_a ''a'' (UserTask 3) (CbFun (UserCb 3)) None = Ok l'
           \<and> queue l' = queue full_a
           \<and> acqs l' = acqs full_a @ [a]
           \<and> trace l' = trace full_a @ [Deliver 2 (Some TooManyPending) None,
                                        CbCalled 3 (Some TooManyPending) None])"
proof -
  have h1: "map_of (queue full_a) ''a'' = Some [1]" unfolding full_a_def by code_simp
  have h2: "maxPending full_a \<le> length [1::nat]" unfolding full_a_def by code_simp
  have h3: "UserTask 3 \<noteq> NotCallable" by simp
  have h4: "caller_arg (CbFun (UserCb 3))" by (simp add: caller_arg_def)
  have h5: "length (acqs full_a) = 2" unfolding full_a_def by code_simp
  from admission_limit [OF h1 h2 h3 h4, of 0 None] h1 h2 h4 h5 show ?thesis
    by (simp add: sink_events_def numeral_3_eq_3)
qed

text \<open>
  C7 (failure of a batch). The claim fails on the run \<open>nested_twice_run\<close>: the time-out of
  the innermost acquisition is passed outwards and reaches the caller, the key A is
  removed, but the completion of acquisition 1 hands K to the waiting acquisition 2 of the
  same batch, which is started because its \<^verbatim>\<open>resolved\<close> is not yet set: after the failure
  was delivered K is still in the table, held by acquisition 2, whose task body was
  entered.
\<close>

theorem failed_batch_keeps_key:
  "map_option (\<lambda>l. (calls_of 1 (trace l), map fst (queue l), holders l ''K'',
                     Invoked 1 (ExecCb 2 True) \<in> set (trace l)))
     (state_of nested_twice_run) =
     Some ([CbCalled 1 (Some TimedOut) None], [''K''], [2], True)"
  unfolding nested_twice_run_def by code_simp

text \<open>
  C8 (malformed calls), as the claim states it, fails for the empty key list: the batch
  call on no keys is not rejected, the task is called directly with the callback of the
  caller.
\<close>

theorem empty_key_list_not_rejected:
  "fst (acquire 2 (new_lock no_opts) (Many []) (UserTask 1) (CbFun (UserCb 1)) None)
     = Ok (emit (Invoked 1 (UserCb 1)) (new_lock no_opts))"
  by code_simp

text \<open>
  C8, amended: a single-key call with a task that is not a function throws at once and
  leaves the lock as it was; a batch call with an empty key list takes no key and calls
  the task directly with the callback it was given, which throws when the task is not a
  function.
\<close>

theorem malformed_call_amended:
  "acquire (Suc n) l (Single k) NotCallable cb opts = (Threw MustPassFunction l, Single k)
   \<and> fst (acquire (Suc n) l (Many []) (UserTask t) (CbFun c) opts) = Ok (emit (Invoked t c) l)
   \<and> fst (acquire (Suc n) l (Many []) NotCallable (CbFun c) opts) = Threw TypeError l"
  by (simp add: acquire_def acquireBatch_def shuffle_def)

text \<open>
  C10 (the key array of the caller): whatever the batch call does, the array the caller
  passed is reversed afterwards.
\<close>

theorem acquire_reverses_keys:
  "snd (acquire n l (Many ks) f cb opts) = Many (rev ks)"
  by (simp add: acquire_def acquireBatch_def Let_def split: prod.splits option.splits)

subsection \<open>The table of queues under single-key use\<close>

text \<open>
  The lemmas of this subsection show that \<open>table_ok\<close> holds in every lock of
  \<open>reachable1\<close>. \<^verbatim>\<open>done\<close> on the channel of a caller that only waits is \<open>released\<close>, then
  \<open>delivered\<close>, then the hand-over (\<open>done_plain\<close>); the hand-over from a state \<open>handing k\<close>
  skips the waiters whose outcome was delivered and ends in a state \<open>table_ok\<close>
  (\<open>hand_over\<close>).
\<close>

lemma field_simps [simp]:
  "trace (emit ev l) = trace l @ [ev]" "acqs (emit ev l) = acqs l" "queue (emit ev l) = queue l"
  "trace (set_called j b l) = trace l" "queue (set_called j b l) = queue l"
  "acqs (set_called j b l) = (acqs l)[j := (acqs l ! j)\<lparr>called := b\<rparr>]"
  "trace (set_timer j b l) = trace l" "queue (set_timer j b l) = queue l"
  "acqs (set_timer j b l) = (acqs l)[j := (acqs l ! j)\<lparr>timer := b\<rparr>]"
  "trace (set_resolved j l) = trace l" "queue (set_resolved j l) = queue l"
  "acqs (set_resolved j l) = (acqs l)[j := (acqs l ! j)\<lparr>resolved := True\<rparr>]"
  by (simp_all add: emit_def set_called_def set_timer_def set_resolved_def)

lemma caller_sink_update [simp]:
  "caller_sink (a\<lparr>timer := b\<rparr>) = caller_sink a"
  "caller_sink (a\<lparr>called := b\<rparr>) = caller_sink a"
  "caller_sink (a\<lparr>resolved := b\<rparr>) = caller_sink a"
  by (simp_all add: caller_sink_def split: option.splits)

lemma started_not_sink [simp]: "Started j \<notin> set (acq_sink_events a e r)"
  by (simp add: acq_sink_events_def split: option.splits cbk.splits)









lemma nth_update_fields [simp]:
  "called ((xs[j := (xs ! j)\<lparr>timer := b\<rparr>]) ! i) = called (xs ! i)"
  "called ((xs[j := (xs ! j)\<lparr>resolved := b\<rparr>]) ! i) = called (xs ! i)"
  "a_key ((xs[j := (xs ! j)\<lparr>timer := b\<rparr>]) ! i) = a_key (xs ! i)"
  "a_key ((xs[j := (xs ! j)\<lparr>resolved := b\<rparr>]) ! i) = a_key (xs ! i)"
  "a_key ((xs[j := (xs ! j)\<lparr>called := b\<rparr>]) ! i) = a_key (xs ! i)"
  "resolved ((xs[j := (xs ! j)\<lparr>timer := b\<rparr>]) ! i) = resolved (xs ! i)"
  "resolved ((xs[j := (xs ! j)\<lparr>called := b\<rparr>]) ! i) = resolved (xs ! i)"
  "a_fn ((xs[j := (xs ! j)\<lparr>timer := b\<rparr>]) ! i) = a_fn (xs ! i)"
  "a_fn ((xs[j := (xs ! j)\<lparr>called := b\<rparr>]) ! i) = a_fn (xs ! i)"
  "a_fn ((xs[j := (xs ! j)\<lparr>resolved := b\<rparr>]) ! i) = a_fn (xs ! i)"
  by (cases "j < length xs"; simp add: nth_list_update list_update_beyond)+


lemma running_simps [simp]:
  "running (emit (Started j) l) i = (if j = i then \<not> called (acqs l ! i) else running l i)"
  "running (emit (Invoked t c) l) i = running l i"
  "running (emit (Deleted k) l) i = running l i"
  "running (emit (Shifted k w) l) i = running l i"
  "running (l\<lparr>queue := q\<rparr>) i = running l i"
  "running (l\<lparr>deferreds := d\<rparr>) i = running l i"
  "running (set_timer j b l) i = running l i"
  "running (set_resolved j l) i = running l i"
  "running (l\<lparr>trace := trace l @ Deliver j e r # acq_sink_events a e r\<rparr>) i = running l i"
  by (auto simp add: running_def)

lemma running_called [simp]:
  "j < length (acqs l) \<Longrightarrow>
   running (set_called j b l) i = (if j = i then Started i \<in> set (trace l) \<and> \<not> b else running l i)"
  by (auto simp add: running_def nth_list_update)

lemma plain_acq_update [simp]:
  "plain_acq ((xs[j := (xs ! j)\<lparr>timer := b\<rparr>]) ! i) = plain_acq (xs ! i)"
  "plain_acq ((xs[j := (xs ! j)\<lparr>called := b\<rparr>]) ! i) = plain_acq (xs ! i)"
  "plain_acq ((xs[j := (xs ! j)\<lparr>resolved := b\<rparr>]) ! i) = plain_acq (xs ! i)"
  by (cases "j < length xs"; simp add: nth_list_update list_update_beyond plain_acq_def)+

lemma plain_update [simp]:
  "plain (emit (Invoked t c) l) = plain l"
  "plain (emit (Deleted k) l) = plain l"
  "plain (emit (Shifted k w) l) = plain l"
  "plain (l\<lparr>queue := q\<rparr>) = plain l"
  "plain (l\<lparr>trace := trace l @ Deliver j e r # acq_sink_events a e r\<rparr>) = plain l"
  "plain (set_timer j b l) = plain l"
  "plain (set_called j b l) = plain l"
  "plain (set_resolved j l) = plain l"
  by (auto simp add: plain_def)




lemma delivered_fields [simp]:
  "queue (delivered i e r l) = queue l"
  "length (acqs (delivered i e r l)) = length (acqs l)"
  "a_key (acqs (delivered i e r l) ! j) = a_key (acqs l ! j)"
  "running (delivered i e r l) j = running l j"
  "(Started j \<in> set (trace (delivered i e r l))) = (Started j \<in> set (trace l))"
  "plain (delivered i e r l) = plain l"
  by (auto simp add: delivered_def)













lemma plain_started [simp]:
  "plain (emit (Started w) l) = (plain l \<and> w < length (acqs l))"
  by (auto simp add: plain_def)






lemma released_fields [simp]:
  "acqs (released b k l) = acqs l"
  "released False k l = l"
  by (simp_all add: released_def)




















subsection \<open>Presence in the table and \<^verbatim>\<open>isBusy\<close>\<close>





text \<open>
  Batch calls are outside \<open>reachable1\<close>, and there the first part does not hold: in the run
  \<open>overlap_run\<close> two acquisitions on K are executing; when the task of one of them reports,
  \<^verbatim>\<open>done\<close> finds the queue of K empty and removes the key, while the other is still
  executing, and \<^verbatim>\<open>isBusy("K")\<close> is false.
\<close>

lemma entry_removed_while_held:
  "map_option (\<lambda>l. (map fst (queue l), holders l ''K'', isBusy l (Some ''K'')))
     (state_of after_overlap) = Some ([''O2''], [6], False)"
  unfolding after_overlap_def overlap_run_def by code_simp


end
